theory Spec2Isabelle
  imports Complex_Main "HOL-Library.Sublist"
begin

section \<open>Python values used by the pipeline\<close>

text \<open>
  The exceptions that the modelled code can meet. Every one of them is a subclass of
  Python's \<open>Exception\<close>, so a bare \<open>except Exception\<close> catches each of them.
  \<open>OtherException\<close> stands for any further exception raised by an external library
  (the operating system, the database driver).
\<close>

datatype py_error =
    KeyError
  | IndexError
  | AttributeError
  | FileNotFoundError
  | JSONDecodeError
  | OtherException string

text \<open>
  What \<open>json.load\<close> and \<open>json.loads\<close> return. A JSON object becomes a Python dict,
  which keeps its keys in insertion order: an association list. \<open>JNull\<close> is Python's
  \<open>None\<close>.
\<close>

datatype json =
    JNull
  | JBool bool
  | JInt int
  | JFloat real
  | JString string
  | JArray "json list"
  | JObject "(string \<times> json) list"

subsection \<open>Dictionaries\<close>

text \<open>
  A Python dict is an association list in insertion order. \<open>k in d\<close>, \<open>d[k]\<close> (which
  raises \<open>KeyError\<close> on a missing key), \<open>d.get(k)\<close> (which returns \<open>None\<close> on a missing
  key) and \<open>d[k] = v\<close> (which keeps the position of a key that is already there and
  appends a new key at the end).
\<close>

definition dict_contains :: "('k \<times> 'v) list \<Rightarrow> 'k \<Rightarrow> bool" where
  "dict_contains d k = (k \<in> set (map fst d))"

definition dict_getitem :: "('k \<times> 'v) list \<Rightarrow> 'k \<Rightarrow> py_error + 'v" where
  "dict_getitem d k = (case map_of d k of None \<Rightarrow> Inl KeyError | Some v \<Rightarrow> Inr v)"

definition dict_get :: "(string \<times> json) list \<Rightarrow> string \<Rightarrow> json" where
  "dict_get d k = (case map_of d k of None \<Rightarrow> JNull | Some v \<Rightarrow> v)"

fun dict_setitem :: "('k \<times> 'v) list \<Rightarrow> 'k \<Rightarrow> 'v \<Rightarrow> ('k \<times> 'v) list" where
  "dict_setitem [] k v = [(k, v)]"
| "dict_setitem ((k', v') # d) k v =
     (if k' = k then (k, v) # d else (k', v') # dict_setitem d k v)"

text \<open>\<open>xs[i]\<close> for a non-negative index: \<open>IndexError\<close> beyond the end.\<close>

definition list_getitem :: "'a list \<Rightarrow> nat \<Rightarrow> py_error + 'a" where
  "list_getitem xs i = (if i < length xs then Inr (xs ! i) else Inl IndexError)"

text \<open>\<open>sep.join(xs)\<close>.\<close>

fun join :: "string \<Rightarrow> string list \<Rightarrow> string" where
  "join sep [] = []"
| "join sep [x] = x"
| "join sep (x # y # ys) = x @ sep @ join sep (y # ys)"

section \<open>The schema model\<close>

text \<open>
  The schema file is written by \<open>get_database_schema\<close> (schema_generation.py): a dict
  from table name to a dict with the three keys \<open>columns\<close> (column name to type
  string, in declaration order), \<open>primary_keys\<close> (a list of column names) and
  \<open>foreign_keys\<close> (a list of dicts with the keys \<open>column\<close>, \<open>references_table\<close> and
  \<open>references_column\<close>). The records below are values of exactly that shape, so the
  subscripts \<open>table_info['columns']\<close>, \<open>fk['column']\<close> and their siblings always find
  their key.
\<close>

record foreign_key =
  column :: string
  references_table :: string
  references_column :: string

record table_info =
  columns :: "(string \<times> string) list"
  primary_keys :: "string list"
  foreign_keys :: "foreign_key list"

type_synonym schema = "(string \<times> table_info) list"

section \<open>build\_vector\_db.py: summaries and documents\<close>

text \<open>The f-string that describes one foreign key (the loop body at lines 64 to 66).\<close>

definition fk_desc :: "foreign_key \<Rightarrow> string" where
  "fk_desc fk =
     column fk @ '' references '' @ references_table fk @ ''.'' @ references_column fk"

fun fk_descriptions_loop :: "foreign_key list \<Rightarrow> string list \<Rightarrow> string list" where
  "fk_descriptions_loop [] fk_descriptions = fk_descriptions"
| "fk_descriptions_loop (fk # rest) fk_descriptions =
     fk_descriptions_loop rest (fk_descriptions @ [fk_desc fk])"

text \<open>
  The body of the loop over \<open>schema.items()\<close> in \<open>schema_summary\<close> (lines 45 to 68):
  the summary of one table. A non-empty list is truthy.
\<close>

definition table_summary :: "string \<Rightarrow> table_info \<Rightarrow> string" where
  "table_summary table_name info =
     (let column_names = map fst (columns info);
          columns_text = join '', '' column_names;
          summary = ''This table '' @ table_name @ '' , has columns '' @ columns_text @ ''.'';
          summary_pk =
            (if primary_keys info \<noteq> []
             then summary @ '' The primary key in this table is ''
                    @ join '', '' (primary_keys info) @ ''.''
             else summary);
          summary_fk =
            (if foreign_keys info \<noteq> []
             then summary_pk @ '' Foreign keys: ''
                    @ join ''; '' (fk_descriptions_loop (foreign_keys info) []) @ ''.''
             else summary_pk)
      in summary_fk)"

fun schema_summary_loop :: "schema \<Rightarrow> string list \<Rightarrow> string list" where
  "schema_summary_loop [] summaries = summaries"
| "schema_summary_loop ((table_name, info) # rest) summaries =
     schema_summary_loop rest (summaries @ [table_summary table_name info])"

definition schema_summary :: "schema \<Rightarrow> string list" where
  "schema_summary schema = schema_summary_loop schema []"

text \<open>
  A \<open>Document\<close>: its text and its metadata dict. \<open>create_documents\<close> reads
  \<open>table_names[i]\<close> for every index of \<open>summaries\<close>, which raises \<open>IndexError\<close> when
  there are more summaries than tables.
\<close>

record document =
  page_content :: string
  metadata :: "(string \<times> string) list"

fun create_documents_loop ::
  "(nat \<times> string) list \<Rightarrow> string list \<Rightarrow> document list \<Rightarrow> py_error + document list" where
  "create_documents_loop [] table_names documents = Inr documents"
| "create_documents_loop ((i, summary) # rest) table_names documents =
     (case list_getitem table_names i of
        Inl e \<Rightarrow> Inl e
      | Inr name \<Rightarrow>
          create_documents_loop rest table_names
            (documents @ [\<lparr>page_content = summary, metadata = [(''table_name'', name)]\<rparr>]))"

definition create_documents :: "string list \<Rightarrow> schema \<Rightarrow> py_error + document list" where
  "create_documents summaries schema =
     create_documents_loop (enumerate 0 summaries) (map fst schema) []"

section \<open>main.py: retrieval, selection, response parsing, loading, execution\<close>

text \<open>
  \<open>get_relevant_schemas\<close>. The vector store is an external collaborator: its
  \<open>similarity_search_with_score\<close> is a parameter that returns the ranked pairs of
  document and score, or raises. The first loop (lines 75 to 80) reads
  \<open>doc.metadata['table_name']\<close> of every result; the second (lines 85 to 88) builds the
  selected dict. The \<open>print\<close> calls have no part in the result.
\<close>

fun relevant_tables_loop ::
  "(document \<times> 'score) list \<Rightarrow> string list \<Rightarrow> py_error + string list" where
  "relevant_tables_loop [] relevant_tables = Inr relevant_tables"
| "relevant_tables_loop ((doc, score) # rest) relevant_tables =
     (case dict_getitem (metadata doc) ''table_name'' of
        Inl e \<Rightarrow> Inl e
      | Inr table_name \<Rightarrow> relevant_tables_loop rest (relevant_tables @ [table_name]))"

fun selected_tables_schema_loop ::
  "(string \<times> 'v) list \<Rightarrow> string list \<Rightarrow> (string \<times> 'v) list \<Rightarrow> py_error + (string \<times> 'v) list" where
  "selected_tables_schema_loop schema [] selected_tables_schema = Inr selected_tables_schema"
| "selected_tables_schema_loop schema (table_name # rest) selected_tables_schema =
     (if dict_contains schema table_name
      then (case dict_getitem schema table_name of
              Inl e \<Rightarrow> Inl e
            | Inr info \<Rightarrow>
                selected_tables_schema_loop schema rest
                  (dict_setitem selected_tables_schema table_name info))
      else selected_tables_schema_loop schema rest selected_tables_schema)"

definition get_relevant_schemas ::
  "string \<Rightarrow> (string \<Rightarrow> int \<Rightarrow> py_error + (document \<times> 'score) list) \<Rightarrow> (string \<times> 'v) list \<Rightarrow> int
     \<Rightarrow> py_error + (string \<times> 'v) list" where
  "get_relevant_schemas question similarity_search_with_score schema top_k =
     (case similarity_search_with_score question top_k of
        Inl e \<Rightarrow> Inl e
      | Inr results_with_scores \<Rightarrow>
          (case relevant_tables_loop results_with_scores [] of
             Inl e \<Rightarrow> Inl e
           | Inr relevant_tables \<Rightarrow> selected_tables_schema_loop schema relevant_tables []))"

text \<open>
  The response parsing of \<open>llm_sql_query\<close> (lines 154 to 160). \<open>json.loads\<close> belongs to
  Python's standard library and is a parameter: it returns the parsed value or raises
  \<open>JSONDecodeError\<close>. \<open>sql_result.get\<close> exists on a dict only; on any other value the
  attribute lookup raises \<open>AttributeError\<close>.
\<close>

definition llm_sql_query_parse ::
  "(string \<Rightarrow> py_error + json) \<Rightarrow> string \<Rightarrow> py_error + json" where
  "llm_sql_query_parse json_loads response_text =
     (case json_loads response_text of
        Inl e \<Rightarrow> Inl e
      | Inr sql_result \<Rightarrow>
          (case sql_result of
             JObject d \<Rightarrow> Inr (dict_get d ''sql_query'')
           | _ \<Rightarrow> Inl AttributeError))"

text \<open>
  \<open>load_schema\<close> (the same function in main.py and in build\_vector\_db.py). Opening
  and reading the file is the parameter \<open>read_file\<close>, which returns the text or raises;
  \<open>json.load\<close> parses that text. The two \<open>except\<close> clauses print a message and return
  \<open>None\<close>; any other exception leaves the function.
\<close>

definition load_schema_except :: "py_error \<Rightarrow> py_error + json" where
  "load_schema_except e =
     (if e = FileNotFoundError then Inr JNull
      else if e = JSONDecodeError then Inr JNull
      else Inl e)"

definition load_schema ::
  "(string \<Rightarrow> py_error + string) \<Rightarrow> (string \<Rightarrow> py_error + json) \<Rightarrow> string \<Rightarrow> py_error + json" where
  "load_schema read_file json_loads file_path =
     (case read_file file_path of
        Inl e \<Rightarrow> load_schema_except e
      | Inr text \<Rightarrow>
          (case json_loads text of
             Inl e \<Rightarrow> load_schema_except e
           | Inr schema \<Rightarrow> Inr schema))"

text \<open>
  \<open>sql_response\<close>. The database driver is external: a record of its operations, each of
  which takes the state of the connection and returns the next state or raises. The
  whole body stands inside \<open>try\<close>, and \<open>except Exception\<close> prints the error and returns
  \<open>None\<close>.
\<close>

record ('cfg, 'db, 'row) pymysql =
  connect :: "'cfg \<Rightarrow> py_error + 'db"
  cursor :: "'db \<Rightarrow> py_error + 'db"
  execute :: "'db \<Rightarrow> string \<Rightarrow> py_error + 'db"
  fetchall :: "'db \<Rightarrow> py_error + ('row list \<times> 'db)"
  cursor_close :: "'db \<Rightarrow> py_error + 'db"
  connection_close :: "'db \<Rightarrow> py_error + 'db"

definition sql_response_try ::
  "('cfg, 'db, 'row) pymysql \<Rightarrow> string \<Rightarrow> 'cfg \<Rightarrow> py_error + 'row list" where
  "sql_response_try driver sql_query db_config =
     (case connect driver db_config of
        Inl e \<Rightarrow> Inl e
      | Inr connection \<Rightarrow>
     (case cursor driver connection of
        Inl e \<Rightarrow> Inl e
      | Inr cur \<Rightarrow>
     (case execute driver cur sql_query of
        Inl e \<Rightarrow> Inl e
      | Inr executed \<Rightarrow>
     (case fetchall driver executed of
        Inl e \<Rightarrow> Inl e
      | Inr (results, fetched) \<Rightarrow>
     (case cursor_close driver fetched of
        Inl e \<Rightarrow> Inl e
      | Inr cursor_closed \<Rightarrow>
     (case connection_close driver cursor_closed of
        Inl e \<Rightarrow> Inl e
      | Inr connection_closed \<Rightarrow> Inr results))))))"

definition sql_response ::
  "('cfg, 'db, 'row) pymysql \<Rightarrow> string \<Rightarrow> 'cfg \<Rightarrow> py_error + 'row list option" where
  "sql_response driver sql_query db_config =
     (case sql_response_try driver sql_query db_config of
        Inl e \<Rightarrow> Inr None
      | Inr results \<Rightarrow> Inr (Some results))"

section \<open>Example values\<close>

text \<open>The two-table schema of the specification's examples.\<close>

definition patients_info :: table_info where
  "patients_info =
     \<lparr>columns = [(''id'', ''int''), (''name'', ''varchar'')],
      primary_keys = [''id''],
      foreign_keys = []\<rparr>"

definition appointments_info :: table_info where
  "appointments_info =
     \<lparr>columns = [(''id'', ''int''), (''patient_id'', ''int'')],
      primary_keys = [''id''],
      foreign_keys =
        [\<lparr>column = ''patient_id'', references_table = ''patients'',
          references_column = ''id''\<rparr>]\<rparr>"

definition example_schema :: schema where
  "example_schema = [(''patients'', patients_info), (''appointments'', appointments_info)]"

text \<open>The same schema with other declared column types.\<close>

definition example_schema_retyped :: schema where
  "example_schema_retyped =
     [(''patients'', patients_info\<lparr>columns := [(''id'', ''bigint''), (''name'', ''text'')]\<rparr>),
      (''appointments'',
       appointments_info\<lparr>columns := [(''id'', ''bigint''), (''patient_id'', ''bigint'')]\<rparr>)]"

text \<open>A schema whose tables have no keys; the second has no column either.\<close>

definition keyless_schema :: schema where
  "keyless_schema =
     [(''notes'', \<lparr>columns = [(''body'', ''text''), (''author'', ''varchar'')],
                  primary_keys = [], foreign_keys = []\<rparr>),
      (''scratch'', \<lparr>columns = [], primary_keys = [], foreign_keys = []\<rparr>)]"

text \<open>
  Retrieval results as a vector store could rank them: one table twice, and one table
  that the schema no longer has.
\<close>

definition example_results :: "(document \<times> real) list" where
  "example_results =
     [(\<lparr>page_content = ''appointments summary'', metadata = [(''table_name'', ''appointments'')]\<rparr>, 0.31),
      (\<lparr>page_content = ''patients summary'', metadata = [(''table_name'', ''patients'')]\<rparr>, 0.42),
      (\<lparr>page_content = ''appointments summary'', metadata = [(''table_name'', ''appointments'')]\<rparr>, 0.42),
      (\<lparr>page_content = ''invoices summary'', metadata = [(''table_name'', ''invoices'')]\<rparr>, 0.57)]"

definition example_search :: "string \<Rightarrow> int \<Rightarrow> py_error + (document \<times> real) list" where
  "example_search question top_k = Inr example_results"

text \<open>
  \<open>json.loads\<close> at the texts of the examples. Each listed text is valid JSON and the value
  is what Python parses it to; the table is used at these texts and at \<open>not json\<close> only.
\<close>

definition example_json_loads :: "string \<Rightarrow> py_error + json" where
  \<open>example_json_loads text =
     (if text = ''{"sql_query": "SELECT * FROM patients"}''
        then Inr (JObject [(''sql_query'', JString ''SELECT * FROM patients'')])
      else if text = ''{"query": "SELECT * FROM patients"}''
        then Inr (JObject [(''query'', JString ''SELECT * FROM patients'')])
      else if text = ''[]''
        then Inr (JArray [])
      else if text = ''{"patients": {}}''
        then Inr (JObject [(''patients'', JObject [])])
      else Inl JSONDecodeError)\<close>

text \<open>A directory with three files; no other path exists.\<close>

definition example_read_file :: "string \<Rightarrow> py_error + string" where
  \<open>example_read_file file_path =
     (if file_path = ''list.json'' then Inr ''[]''
      else if file_path = ''incomplete.json'' then Inr ''{"patients": {}}''
      else if file_path = ''broken.json'' then Inr ''not json''
      else Inl FileNotFoundError)\<close>

text \<open>
  The connection settings of \<open>streamlit_ui\<close>, and a database that knows one query: the
  state of a connection is the rows that wait to be fetched.
\<close>

record db_config =
  database :: string
  host :: string
  user :: string
  password :: string

definition example_db_config :: db_config where
  "example_db_config =
     \<lparr>database = ''hms'', host = ''localhost'', user = ''root'', password = ''aardra''\<rparr>"

definition example_driver :: "(db_config, (nat \<times> string) list, nat \<times> string) pymysql" where
  "example_driver =
     \<lparr>connect = (\<lambda>cfg. Inr []),
      cursor = (\<lambda>s. Inr s),
      execute = (\<lambda>s q.
        if q = ''SELECT * FROM patients''
        then Inr [(1, ''Asha''), (2, ''Binu'')]
        else Inl (OtherException ''ProgrammingError'')),
      fetchall = (\<lambda>s. Inr (s, [])),
      cursor_close = (\<lambda>s. Inr s),
      connection_close = (\<lambda>s. Inr s)\<rparr>"

text \<open>The same database, with a cursor or a connection that cannot be closed.\<close>

definition cursor_close_fails_driver ::
  "(db_config, (nat \<times> string) list, nat \<times> string) pymysql" where
  "cursor_close_fails_driver =
     example_driver\<lparr>cursor_close := (\<lambda>s. Inl (OtherException ''InterfaceError''))\<rparr>"

definition connection_close_fails_driver ::
  "(db_config, (nat \<times> string) list, nat \<times> string) pymysql" where
  "connection_close_fails_driver =
     example_driver\<lparr>connection_close := (\<lambda>s. Inl (OtherException ''Error''))\<rparr>"

section \<open>Summaries\<close>

lemma fk_descriptions_loop_map:
  "fk_descriptions_loop fks acc = acc @ map fk_desc fks"
  by (induction fks arbitrary: acc) simp_all

lemma schema_summary_loop_map:
  "schema_summary_loop s acc = acc @ map (\<lambda>(n, info). table_summary n info) s"
  by (induction s arbitrary: acc) auto

lemma schema_summary_map:
  "schema_summary s = map (\<lambda>(n, info). table_summary n info) s"
  by (simp add: schema_summary_def schema_summary_loop_map)

lemma schema_summary_nth:
  "i < length s \<Longrightarrow> schema_summary s ! i = table_summary (fst (s ! i)) (snd (s ! i))"
  by (simp add: schema_summary_map case_prod_beta)

lemma length_schema_summary: "length (schema_summary s) = length s"
  by (simp add: schema_summary_map)

text \<open>
  C2. Summarising is deterministic in the table alone: the summary of a table depends on
  its name and its fields only, neither on the other tables of the schema nor on its
  position. Two schemas that hold an identical table, at whatever positions, give that
  table the same summary string, character by character.
\<close>

theorem summary_depends_only_on_table:
  "i < length schema1 \<Longrightarrow> j < length schema2 \<Longrightarrow> schema1 ! i = schema2 ! j \<Longrightarrow>
     length (schema_summary schema1) = length schema1
     \<and> length (schema_summary schema2) = length schema2
     \<and> schema_summary schema1 ! i = schema_summary schema2 ! j"
  by (simp add: schema_summary_nth length_schema_summary)

theorem summary_depends_only_on_table_witness:
  "(1::nat) < length example_schema
   \<and> (0::nat) < length [(''appointments'', appointments_info)]
   \<and> example_schema ! 1 = [(''appointments'', appointments_info)] ! 0
   \<and> schema_summary example_schema ! 1 = schema_summary [(''appointments'', appointments_info)] ! 0"
  using summary_depends_only_on_table [of 1 example_schema 0 "[(''appointments'', appointments_info)]"]
  by (simp add: example_schema_def)

lemma example_summaries:
  "schema_summary example_schema =
     [''This table patients , has columns id, name. The primary key in this table is id.'',
      ''This table appointments , has columns id, patient_id. The primary key in this table is id. Foreign keys: patient_id references patients.id.'']"
  by (simp add: schema_summary_def example_schema_def patients_info_def appointments_info_def
      table_summary_def fk_desc_def)

text \<open>
  C3. The summary of a table with foreign keys is the summary of the same table without
  them followed by one sentence: \<open>Foreign keys:\<close>, then one clause per foreign key in
  list order, each of the form column, \<open>references\<close>, table, a dot, column, the clauses
  joined by a semicolon and a space. The \<open>appointments\<close> table of the specification's
  example has the primary-key sentence naming \<open>id\<close> and the clause
  \<open>patient_id references patients.id\<close> in its summary.
\<close>

theorem foreign_key_clauses:
  "(i < length schema \<and> schema ! i = (table_name, info) \<and> foreign_keys info \<noteq> [] \<longrightarrow>
      schema_summary schema ! i =
        table_summary table_name (info\<lparr>foreign_keys := []\<rparr>) @ '' Foreign keys: ''
          @ join ''; ''
              (map (\<lambda>fk. column fk @ '' references '' @ references_table fk @ ''.''
                           @ references_column fk)
                 (foreign_keys info))
          @ ''.'')
   \<and> schema_summary example_schema ! 1 =
       ''This table appointments , has columns id, patient_id. The primary key in this table is id. Foreign keys: patient_id references patients.id.''
   \<and> sublist ''The primary key in this table is id.'' (schema_summary example_schema ! 1)
   \<and> sublist ''patient_id references patients.id'' (schema_summary example_schema ! 1)"
proof (intro conjI impI)
  assume h: "i < length schema \<and> schema ! i = (table_name, info) \<and> foreign_keys info \<noteq> []"
  then have "schema_summary schema ! i = table_summary table_name info"
    by (simp add: schema_summary_nth)
  also have "\<dots> = table_summary table_name (info\<lparr>foreign_keys := []\<rparr>) @ '' Foreign keys: ''
          @ join ''; ''
              (map (\<lambda>fk. column fk @ '' references '' @ references_table fk @ ''.''
                           @ references_column fk)
                 (foreign_keys info))
          @ ''.''"
    using h by (simp add: table_summary_def Let_def fk_descriptions_loop_map fk_desc_def [abs_def])
  finally show "schema_summary schema ! i = table_summary table_name (info\<lparr>foreign_keys := []\<rparr>) @ '' Foreign keys: ''
          @ join ''; ''
              (map (\<lambda>fk. column fk @ '' references '' @ references_table fk @ ''.''
                           @ references_column fk)
                 (foreign_keys info))
          @ ''.''" .
next
  show "schema_summary example_schema ! 1 =
       ''This table appointments , has columns id, patient_id. The primary key in this table is id. Foreign keys: patient_id references patients.id.''"
    by (simp add: example_summaries)
next
  show "sublist ''The primary key in this table is id.'' (schema_summary example_schema ! 1)"
    using sublist_appendI [of "''The primary key in this table is id.''"
        "''This table appointments , has columns id, patient_id. ''"
        "'' Foreign keys: patient_id references patients.id.''"]
    by (simp add: example_summaries)
next
  show "sublist ''patient_id references patients.id'' (schema_summary example_schema ! 1)"
    using sublist_appendI [of "''patient_id references patients.id''"
        "''This table appointments , has columns id, patient_id. The primary key in this table is id. Foreign keys: ''"
        "''.''"]
    by (simp add: example_summaries)
qed

theorem foreign_key_clauses_witness:
  "(1::nat) < length example_schema
   \<and> example_schema ! 1 = (''appointments'', appointments_info)
   \<and> foreign_keys appointments_info \<noteq> []
   \<and> schema_summary example_schema ! 1 =
        table_summary ''appointments'' (appointments_info\<lparr>foreign_keys := []\<rparr>)
          @ '' Foreign keys: '' @ join ''; '' [''patient_id references patients.id''] @ ''.''"
  using foreign_key_clauses [of 1 example_schema "''appointments''" appointments_info]
  by (simp add: example_schema_def appointments_info_def)

text \<open>
  C4. A table with no primary key and no foreign key is summarised by the base sentence
  alone: the table name and the column names joined by a comma and a space. With no
  column either, the column list of that sentence is empty.
\<close>

theorem summary_without_keys_is_base_sentence:
  "i < length schema \<and> schema ! i = (table_name, info)
     \<and> primary_keys info = [] \<and> foreign_keys info = [] \<longrightarrow>
     schema_summary schema ! i =
       ''This table '' @ table_name @ '' , has columns ''
          @ join '', '' (map fst (columns info)) @ ''.''
     \<and> (columns info = [] \<longrightarrow>
          schema_summary schema ! i = ''This table '' @ table_name @ '' , has columns .'')"
  by (simp add: schema_summary_nth table_summary_def)

theorem summary_without_keys_is_base_sentence_witness:
  "(1::nat) < length keyless_schema
   \<and> keyless_schema ! 1 = (''scratch'', \<lparr>columns = [], primary_keys = [], foreign_keys = []\<rparr>)
   \<and> schema_summary keyless_schema ! 1 = ''This table scratch , has columns .''
   \<and> schema_summary keyless_schema ! 0 = ''This table notes , has columns body, author.''"
  using summary_without_keys_is_base_sentence [of 1 keyless_schema "''scratch''"
      "\<lparr>columns = [], primary_keys = [], foreign_keys = []\<rparr>"]
    summary_without_keys_is_base_sentence [of 0 keyless_schema "''notes''"
      "\<lparr>columns = [(''body'', ''text''), (''author'', ''varchar'')], primary_keys = [], foreign_keys = []\<rparr>"]
  by (simp add: keyless_schema_def)

lemma table_summary_cong:
  "map fst (columns a) = map fst (columns b) \<Longrightarrow> primary_keys a = primary_keys b \<Longrightarrow>
   foreign_keys a = foreign_keys b \<Longrightarrow> table_summary n a = table_summary n b"
  unfolding table_summary_def Let_def by simp

text \<open>
  C5. The summaries do not depend on the declared column types: two schemas with the
  same table names, the same column names in the same order, the same primary keys and
  the same foreign keys have the same list of summaries, whatever their type strings.
\<close>

theorem summary_ignores_column_types:
  "map (\<lambda>(n, info). (n, map fst (columns info), primary_keys info, foreign_keys info)) schema1
     = map (\<lambda>(n, info). (n, map fst (columns info), primary_keys info, foreign_keys info)) schema2
   \<Longrightarrow> schema_summary schema1 = schema_summary schema2"
proof (induction schema1 arbitrary: schema2)
  case Nil
  then show ?case by simp
next
  case (Cons a s1)
  then obtain b s2 where s2: "schema2 = b # s2" by auto
  obtain n1 i1 where a: "a = (n1, i1)" by (cases a)
  obtain n2 i2 where b: "b = (n2, i2)" by (cases b)
  from Cons.prems s2 a b have e: "n1 = n2" "map fst (columns i1) = map fst (columns i2)"
    "primary_keys i1 = primary_keys i2" "foreign_keys i1 = foreign_keys i2"
    and r: "map (\<lambda>(n, info). (n, map fst (columns info), primary_keys info, foreign_keys info)) s1
     = map (\<lambda>(n, info). (n, map fst (columns info), primary_keys info, foreign_keys info)) s2"
    by simp_all
  have "table_summary n1 i1 = table_summary n2 i2"
    unfolding e(1) by (rule table_summary_cong [OF e(2) e(3) e(4)])
  moreover have "schema_summary s1 = schema_summary s2" using Cons.IH[OF r] .
  ultimately show ?case by (simp add: s2 a b schema_summary_map)
qed

theorem summary_ignores_column_types_witness:
  "map (\<lambda>(n, info). (n, map fst (columns info), primary_keys info, foreign_keys info)) example_schema
     = map (\<lambda>(n, info). (n, map fst (columns info), primary_keys info, foreign_keys info))
         example_schema_retyped
   \<and> example_schema \<noteq> example_schema_retyped
   \<and> schema_summary example_schema = schema_summary example_schema_retyped"
proof -
  have h: "map (\<lambda>(n, info). (n, map fst (columns info), primary_keys info, foreign_keys info)) example_schema
     = map (\<lambda>(n, info). (n, map fst (columns info), primary_keys info, foreign_keys info))
         example_schema_retyped"
    by (simp add: example_schema_def example_schema_retyped_def patients_info_def
        appointments_info_def)
  have d: "example_schema \<noteq> example_schema_retyped"
    by (simp add: example_schema_def example_schema_retyped_def patients_info_def
        appointments_info_def)
  from h d summary_ignores_column_types [OF h] show ?thesis by (intro conjI)
qed

section \<open>Documents\<close>

text \<open>
  The documents. When there are at least as many table names as summaries, no index is
  out of range and the loop pairs the summaries with the names in order.
\<close>

lemma create_documents_loop_zip:
  "k + length xs \<le> length names \<Longrightarrow>
   create_documents_loop (enumerate k xs) names docs =
     Inr (docs @ map (\<lambda>(n, s). \<lparr>page_content = s, metadata = [(''table_name'', n)]\<rparr>)
                   (zip (drop k names) xs))"
proof (induction xs arbitrary: k docs)
  case Nil
  then show ?case by simp
next
  case (Cons x xs)
  then have k: "k < length names" and k': "Suc k + length xs \<le> length names" by simp_all
  have d: "drop k names = names ! k # drop (Suc k) names"
    using k by (simp add: Cons_nth_drop_Suc)
  show ?case using Cons.IH[OF k'] k by (simp add: list_getitem_def d)
qed

lemma create_documents_map:
  "create_documents (schema_summary schema) schema =
     Inr (map (\<lambda>(n, info). \<lparr>page_content = table_summary n info,
                               metadata = [(''table_name'', n)]\<rparr>) schema)"
proof -
  have "zip (map fst schema) (map (\<lambda>(n, info). table_summary n info) schema)
      = map (\<lambda>(n, info). (n, table_summary n info)) schema"
    by (induction schema) auto
  then show ?thesis
    using create_documents_loop_zip [of 0 "schema_summary schema" "map fst schema" "[]"]
    by (simp add: create_documents_def schema_summary_map case_prod_beta)
qed

text \<open>
  C9. Building the documents of a schema from its summaries succeeds and gives one
  document per table, in table order: the document at index \<open>i\<close> has the name of the
  \<open>i\<close>-th table as its \<open>table_name\<close> metadata, and its page content is the summary
  generated for that table.
\<close>

theorem documents_match_tables:
  "\<exists>documents. create_documents (schema_summary schema) schema = Inr documents
     \<and> length documents = length schema
     \<and> (\<forall>i<length schema.
           metadata (documents ! i) = [(''table_name'', fst (schema ! i))]
         \<and> page_content (documents ! i) = schema_summary schema ! i
         \<and> schema_summary [schema ! i] = [page_content (documents ! i)])"
proof -
  let ?documents = "map (\<lambda>(n, info). \<lparr>page_content = table_summary n info,
                               metadata = [(''table_name'', n)]\<rparr>) schema"
  have l: "length ?documents = length schema" by simp
  have a: "\<forall>i<length schema.
           metadata (?documents ! i) = [(''table_name'', fst (schema ! i))]
         \<and> page_content (?documents ! i) = schema_summary schema ! i
         \<and> schema_summary [schema ! i] = [page_content (?documents ! i)]"
    by (simp add: schema_summary_map case_prod_beta)
  show ?thesis using create_documents_map [of schema] l a
    by (intro exI[of _ ?documents] conjI)
qed

theorem documents_match_tables_witness:
  "\<exists>documents. create_documents (schema_summary example_schema) example_schema = Inr documents
     \<and> length documents = length example_schema
     \<and> ((1::nat) < length example_schema
         \<and> metadata (documents ! 1) = [(''table_name'', fst (example_schema ! 1))]
         \<and> page_content (documents ! 1) = schema_summary example_schema ! 1
         \<and> schema_summary [example_schema ! 1] = [page_content (documents ! 1)])"
proof -
  have h: "(1::nat) < length example_schema" by (simp add: example_schema_def)
  from documents_match_tables [of example_schema] obtain documents where d:
    "create_documents (schema_summary example_schema) example_schema = Inr documents"
    "length documents = length example_schema"
    "\<forall>i<length example_schema.
           metadata (documents ! i) = [(''table_name'', fst (example_schema ! i))]
         \<and> page_content (documents ! i) = schema_summary example_schema ! i
         \<and> schema_summary [example_schema ! i] = [page_content (documents ! i)]"
    by auto
  from d(3) [rule_format, OF h] have "metadata (documents ! 1) = [(''table_name'', fst (example_schema ! 1))]
         \<and> page_content (documents ! 1) = schema_summary example_schema ! 1
         \<and> schema_summary [example_schema ! 1] = [page_content (documents ! 1)]"
    .
  with d(1,2) h show ?thesis by (intro exI[of _ documents] conjI) simp_all
qed

section \<open>Selection\<close>

text \<open>
  Assigning to a key keeps the keys that are there, in their order, and appends the key
  when it is new; every entry of the result is an old entry or the assigned one.
\<close>

lemma dict_setitem_keys:
  "map fst (dict_setitem d k v) =
     (if k \<in> set (map fst d) then map fst d else map fst d @ [k])"
  by (induction d) (auto simp: rev_image_eqI)

lemma dict_setitem_set: "set (dict_setitem d k v) \<subseteq> insert (k, v) (set d)"
  by (induction d) (auto split: if_splits)

lemma dict_getitem_in:
  "dict_contains d k \<Longrightarrow> \<exists>v. dict_getitem d k = Inr v \<and> map_of d k = Some v"
  unfolding dict_contains_def dict_getitem_def
  by (cases "map_of d k") (auto simp: map_of_eq_None_iff)

text \<open>
  \<open>rev (remdups (rev xs))\<close> keeps the first occurrence of every element of \<open>xs\<close>, in
  the order of \<open>xs\<close>: the order in which a dict receives the keys \<open>xs\<close>.
\<close>

lemma remdups_mid: "t \<in> set zs \<Longrightarrow> remdups (xs @ t # zs) = remdups (xs @ zs)"
  by (induction xs) auto

lemma first_occ_mid:
  "t \<in> set acc \<Longrightarrow>
     rev (remdups (rev (acc @ t # ys))) = rev (remdups (rev (acc @ ys)))"
  by (simp add: remdups_mid)

lemma dict_setitem_values:
  "\<forall>p\<in>set d. P p \<Longrightarrow> P (k, v) \<Longrightarrow> \<forall>p\<in>set (dict_setitem d k v). P p"
  using dict_setitem_set[of d k v] by blast

text \<open>
  The invariant of the selection loop: the keys of the dict are the first occurrences of
  the names seen so far that the schema contains, and every value is the schema's own.
\<close>

lemma selected_tables_schema_loop_invariant:
  "distinct (map fst sel) \<Longrightarrow> \<forall>p\<in>set sel. map_of schema (fst p) = Some (snd p) \<Longrightarrow>
   \<exists>out. selected_tables_schema_loop schema rs sel = Inr out
     \<and> map fst out = rev (remdups (rev (map fst sel @ filter (dict_contains schema) rs)))
     \<and> (\<forall>p\<in>set out. map_of schema (fst p) = Some (snd p))"
proof (induction rs arbitrary: sel)
  case Nil
  have "rev (remdups (rev (map fst sel))) = map fst sel"
    using Nil.prems(1) by (simp add: distinct_remdups_id)
  then have "map fst sel = rev (remdups (rev (map fst sel @ filter (dict_contains schema) [])))"
    by simp
  moreover have "selected_tables_schema_loop schema [] sel = Inr sel" by simp
  ultimately show ?case using Nil.prems(2) by (intro exI[of _ sel] conjI)
next
  case (Cons t rs)
  show ?case
  proof (cases "dict_contains schema t")
    case False
    from Cons.IH[OF Cons.prems] obtain out where out:
      "selected_tables_schema_loop schema rs sel = Inr out"
      "map fst out = rev (remdups (rev (map fst sel @ filter (dict_contains schema) rs)))"
      "\<forall>p\<in>set out. map_of schema (fst p) = Some (snd p)" by auto
    have l: "selected_tables_schema_loop schema (t # rs) sel = Inr out"
      using False out(1) by simp
    have f: "filter (dict_contains schema) (t # rs) = filter (dict_contains schema) rs"
      using False by simp
    show ?thesis unfolding f using l out(2,3) by (intro exI[of _ out] conjI)
  next
    case True
    from dict_getitem_in[OF True] obtain v
      where v: "dict_getitem schema t = Inr v" "map_of schema t = Some v"
      by auto
    let ?sel = "dict_setitem sel t v"
    have d: "distinct (map fst ?sel)" using Cons.prems(1) by (simp add: dict_setitem_keys)
    have w: "\<forall>p\<in>set ?sel. map_of schema (fst p) = Some (snd p)"
      by (rule dict_setitem_values) (use Cons.prems(2) v(2) in simp_all)
    from Cons.IH[OF d w] obtain out where out:
      "selected_tables_schema_loop schema rs ?sel = Inr out"
      "map fst out = rev (remdups (rev (map fst ?sel @ filter (dict_contains schema) rs)))"
      "\<forall>p\<in>set out. map_of schema (fst p) = Some (snd p)" by auto
    have f: "filter (dict_contains schema) (t # rs) = t # filter (dict_contains schema) rs"
      using True by simp
    have "map fst ?sel @ filter (dict_contains schema) rs = (if t \<in> set (map fst sel) then map fst sel @ filter (dict_contains schema) rs else map fst sel @ t # filter (dict_contains schema) rs)"
      by (simp add: dict_setitem_keys)
    then have e: "rev (remdups (rev (map fst ?sel @ filter (dict_contains schema) rs)))
        = rev (remdups (rev (map fst sel @ t # filter (dict_contains schema) rs)))"
      using first_occ_mid[of t "map fst sel" "filter (dict_contains schema) rs"]
      by (cases "t \<in> set (map fst sel)") (simp_all only: if_True if_False)
    have k: "map fst out = rev (remdups (rev (map fst sel @ filter (dict_contains schema) (t # rs))))"
      unfolding f using out(2) e by (rule trans)
    have l: "selected_tables_schema_loop schema (t # rs) sel = Inr out"
      using True v(1) out(1) by simp
    show ?thesis using l k out(3) by (intro exI[of _ out] conjI)
  qed
qed

lemma relevant_tables_loop_names:
  "map (\<lambda>(doc, score). dict_getitem (metadata doc) ''table_name'') results = map Inr names \<Longrightarrow>
   relevant_tables_loop results acc = Inr (acc @ names)"
proof (induction results arbitrary: names acc)
  case Nil
  then show ?case by simp
next
  case (Cons r results)
  obtain doc score where r: "r = (doc, score)" by (cases r)
  from Cons.prems obtain n ns where ns: "names = n # ns" by (cases names) auto
  from Cons.prems r ns have h: "dict_getitem (metadata doc) ''table_name'' = Inr n"
    and t: "map (\<lambda>(doc, score). dict_getitem (metadata doc) ''table_name'') results = map Inr ns"
    by simp_all
  show ?case using Cons.IH [OF t, of "acc @ [n]"] h by (simp add: r ns)
qed

lemma get_relevant_schemas_select:
  assumes "similarity_search_with_score question top_k = Inr results"
    and "map (\<lambda>(doc, score). dict_getitem (metadata doc) ''table_name'') results = map Inr names"
  shows "get_relevant_schemas question similarity_search_with_score schema top_k =
           selected_tables_schema_loop schema names []"
  using assms(1) relevant_tables_loop_names [OF assms(2), of "[]"]
  by (simp add: get_relevant_schemas_def)

lemma select_from_empty:
  "\<exists>out. selected_tables_schema_loop schema rs [] = Inr out
     \<and> map fst out = rev (remdups (rev (filter (dict_contains schema) rs)))
     \<and> (\<forall>p\<in>set out. map_of schema (fst p) = Some (snd p))"
  using selected_tables_schema_loop_invariant [of "[]" schema rs] by simp

lemma first_occurrences_set: "set (rev (remdups (rev xs))) = set xs"
  by simp

lemma first_occurrences_distinct: "distinct (rev (remdups (rev xs)))"
  by simp

lemma first_occurrences_length: "length (rev (remdups (rev xs))) \<le> length xs"
  using length_remdups_leq [of "rev xs"] by simp

lemma first_occurrences_id: "distinct xs \<Longrightarrow> rev (remdups (rev xs)) = xs"
  by (simp add: distinct_remdups_id)

text \<open>
  C1. Given the ranked retrieval results and the table names they carry,
  \<open>get_relevant_schemas\<close> returns a dict and raises nothing. Its keys are the result names
  that the schema contains, each once, in rank order of their first occurrence (which is
  the results' own order when no name repeats); a name that the schema lacks is skipped.
  Every key is mapped to the value that the schema holds for it, and the dict has at most
  as many entries as there are results.
\<close>

theorem selection_keeps_existing_tables_in_rank_order:
  assumes "similarity_search_with_score question top_k = Inr results"
    and "map (\<lambda>(doc, score). dict_getitem (metadata doc) ''table_name'') results
           = map Inr relevant_tables"
  shows "\<exists>selected.
           get_relevant_schemas question similarity_search_with_score schema top_k = Inr selected
         \<and> map fst selected = rev (remdups (rev (filter (dict_contains schema) relevant_tables)))
         \<and> (distinct relevant_tables \<longrightarrow>
              map fst selected = filter (dict_contains schema) relevant_tables)
         \<and> set (map fst selected) = set relevant_tables \<inter> set (map fst schema)
         \<and> (\<forall>p\<in>set selected. dict_getitem schema (fst p) = Inr (snd p))
         \<and> length selected \<le> length results"
proof -
  let ?kept = "filter (dict_contains schema) relevant_tables"
  from select_from_empty [of schema relevant_tables] obtain selected where s:
    "selected_tables_schema_loop schema relevant_tables [] = Inr selected"
    "map fst selected = rev (remdups (rev ?kept))"
    "\<forall>p\<in>set selected. map_of schema (fst p) = Some (snd p)"
    by auto
  have g: "get_relevant_schemas question similarity_search_with_score schema top_k = Inr selected"
    using get_relevant_schemas_select [of similarity_search_with_score question top_k results
        relevant_tables schema, OF assms] s(1) by simp
  have d: "distinct relevant_tables \<longrightarrow> map fst selected = ?kept"
  proof
    assume "distinct relevant_tables"
    then have "distinct ?kept" by simp
    then show "map fst selected = ?kept"
      unfolding s(2) by (rule first_occurrences_id)
  qed
  have k: "set (map fst selected) = set relevant_tables \<inter> set (map fst schema)"
    unfolding s(2) first_occurrences_set by (auto simp: dict_contains_def)
  have v: "\<forall>p\<in>set selected. dict_getitem schema (fst p) = Inr (snd p)"
    using s(3) by (simp add: dict_getitem_def)
  have e: "length results = length relevant_tables"
    using arg_cong [OF assms(2), of length] by simp
  have "length (map fst selected) \<le> length ?kept"
    unfolding s(2) by (rule first_occurrences_length)
  then have a: "length selected \<le> length ?kept" by simp
  have f: "length ?kept \<le> length relevant_tables" by (rule length_filter_le)
  have l: "length selected \<le> length results"
    unfolding e by (rule order_trans [OF a f])
  show ?thesis using g s(2) d k v l by (intro exI[of _ selected] conjI)
qed

text \<open>
  C10. The keys of the dict that \<open>get_relevant_schemas\<close> returns are keys of the schema,
  and no key occurs twice, even when the retrieval results name a table more than once.
\<close>

theorem selected_keys_subset_and_distinct:
  assumes "similarity_search_with_score question top_k = Inr results"
    and "map (\<lambda>(doc, score). dict_getitem (metadata doc) ''table_name'') results
           = map Inr relevant_tables"
  shows "\<exists>selected.
           get_relevant_schemas question similarity_search_with_score schema top_k = Inr selected
         \<and> set (map fst selected) \<subseteq> set (map fst schema)
         \<and> distinct (map fst selected)"
proof -
  from select_from_empty [of schema relevant_tables] obtain selected where s:
    "selected_tables_schema_loop schema relevant_tables [] = Inr selected"
    "map fst selected = rev (remdups (rev (filter (dict_contains schema) relevant_tables)))"
    by auto
  have g: "get_relevant_schemas question similarity_search_with_score schema top_k = Inr selected"
    using get_relevant_schemas_select [of similarity_search_with_score question top_k results
        relevant_tables schema, OF assms] s(1) by simp
  have k: "set (map fst selected) \<subseteq> set (map fst schema)"
    unfolding s(2) first_occurrences_set by (auto simp: dict_contains_def)
  have d: "distinct (map fst selected)"
    unfolding s(2) by (rule first_occurrences_distinct)
  show ?thesis using g k d by (intro exI[of _ selected] conjI)
qed

lemma example_results_names:
  "map (\<lambda>(doc, score). dict_getitem (metadata doc) ''table_name'') example_results
     = map Inr [''appointments'', ''patients'', ''appointments'', ''invoices'']"
  by (simp add: example_results_def dict_getitem_def)

lemma example_kept:
  "rev (remdups (rev (filter (dict_contains example_schema)
      [''appointments'', ''patients'', ''appointments'', ''invoices''])))
   = [''appointments'', ''patients'']"
  by (simp add: dict_contains_def example_schema_def)

theorem selection_keeps_existing_tables_in_rank_order_witness:
  "example_search ''appointments made by patient 2'' 3 = Inr example_results
   \<and> map (\<lambda>(doc, score). dict_getitem (metadata doc) ''table_name'') example_results
        = map Inr [''appointments'', ''patients'', ''appointments'', ''invoices'']
   \<and> (\<exists>selected.
         get_relevant_schemas ''appointments made by patient 2'' example_search example_schema 3
           = Inr selected
       \<and> map fst selected = [''appointments'', ''patients'']
       \<and> (\<forall>p\<in>set selected. dict_getitem example_schema (fst p) = Inr (snd p))
       \<and> length selected \<le> length example_results)"
proof -
  have h1: "example_search ''appointments made by patient 2'' 3 = Inr example_results"
    by (simp add: example_search_def)
  from selection_keeps_existing_tables_in_rank_order
         [of example_search "''appointments made by patient 2''" 3 example_results
            "[''appointments'', ''patients'', ''appointments'', ''invoices'']" example_schema,
          OF h1 example_results_names]
  obtain selected where s:
    "get_relevant_schemas ''appointments made by patient 2'' example_search example_schema 3
       = Inr selected"
    "map fst selected = rev (remdups (rev (filter (dict_contains example_schema)
        [''appointments'', ''patients'', ''appointments'', ''invoices''])))"
    "\<forall>p\<in>set selected. dict_getitem example_schema (fst p) = Inr (snd p)"
    "length selected \<le> length example_results"
    by auto
  have k: "map fst selected = [''appointments'', ''patients'']"
    using s(2) unfolding example_kept .
  show ?thesis using h1 example_results_names s(1) k s(3) s(4)
    by (intro conjI exI[of _ selected])
qed

theorem selected_keys_subset_and_distinct_witness:
  "example_search ''appointments made by patient 2'' 3 = Inr example_results
   \<and> map (\<lambda>(doc, score). dict_getitem (metadata doc) ''table_name'') example_results
        = map Inr [''appointments'', ''patients'', ''appointments'', ''invoices'']
   \<and> (\<exists>selected.
         get_relevant_schemas ''appointments made by patient 2'' example_search example_schema 3
           = Inr selected
       \<and> set (map fst selected) \<subseteq> set (map fst example_schema)
       \<and> distinct (map fst selected))"
proof -
  have h1: "example_search ''appointments made by patient 2'' 3 = Inr example_results"
    by (simp add: example_search_def)
  from selected_keys_subset_and_distinct
         [of example_search "''appointments made by patient 2''" 3 example_results
            "[''appointments'', ''patients'', ''appointments'', ''invoices'']" example_schema,
          OF h1 example_results_names]
  show ?thesis using h1 example_results_names by (intro conjI)
qed

lemma example_selected:
  "get_relevant_schemas ''appointments made by patient 2'' example_search example_schema 3
     = Inr [(''appointments'', appointments_info), (''patients'', patients_info)]"
  by (simp add: get_relevant_schemas_def example_search_def example_results_def
      dict_getitem_def dict_contains_def example_schema_def)

section \<open>Response parsing\<close>

text \<open>
  A response that is valid JSON but has no \<open>sql_query\<close> key: \<open>dict.get\<close> returns
  \<open>None\<close> and the parsing step returns it; nothing is raised.
\<close>

theorem missing_sql_query_is_not_an_error:
  \<open>example_json_loads ''{"query": "SELECT * FROM patients"}''
     = Inr (JObject [(''query'', JString ''SELECT * FROM patients'')])
   \<and> \<not> dict_contains [(''query'', JString ''SELECT * FROM patients'')] ''sql_query''
   \<and> llm_sql_query_parse example_json_loads ''{"query": "SELECT * FROM patients"}'' = Inr JNull\<close>
  by (simp add: llm_sql_query_parse_def example_json_loads_def dict_get_def dict_contains_def)

text \<open>
  C6. What the parsing step does. An exception of \<open>json.loads\<close> (the text is not valid
  JSON) leaves the function unchanged. When the text parses to an object, the result is
  the value stored under \<open>sql_query\<close>, and \<open>None\<close> when the object has no such key: a
  missing key is not a failure. When the text parses to anything else, the lookup of
  \<open>get\<close> raises \<open>AttributeError\<close>. For the well-formed response of the specification's
  example the result is exactly the string of the field.
\<close>

theorem response_parsing:
  \<open>(json_loads response_text = Inl e \<longrightarrow>
      llm_sql_query_parse json_loads response_text = Inl e)
   \<and> (json_loads response_text = Inr (JObject d) \<and> map_of d ''sql_query'' = Some v \<longrightarrow>
      llm_sql_query_parse json_loads response_text = Inr v)
   \<and> (json_loads response_text = Inr (JObject d) \<and> map_of d ''sql_query'' = None \<longrightarrow>
      llm_sql_query_parse json_loads response_text = Inr JNull)
   \<and> (json_loads response_text = Inr parsed \<and> (\<forall>d'. parsed \<noteq> JObject d') \<longrightarrow>
      llm_sql_query_parse json_loads response_text = Inl AttributeError)
   \<and> (json_loads ''{"sql_query": "SELECT * FROM patients"}''
        = Inr (JObject [(''sql_query'', JString ''SELECT * FROM patients'')]) \<longrightarrow>
      llm_sql_query_parse json_loads ''{"sql_query": "SELECT * FROM patients"}''
        = Inr (JString ''SELECT * FROM patients''))\<close>
proof (intro conjI impI)
  assume "json_loads response_text = Inr parsed \<and> (\<forall>d'. parsed \<noteq> JObject d')"
  then show "llm_sql_query_parse json_loads response_text = Inl AttributeError"
    by (cases parsed) (simp_all add: llm_sql_query_parse_def)
qed (simp_all add: llm_sql_query_parse_def dict_get_def)

theorem response_parsing_witness:
  \<open>example_json_loads ''not json'' = Inl JSONDecodeError
   \<and> llm_sql_query_parse example_json_loads ''not json'' = Inl JSONDecodeError
   \<and> example_json_loads ''{"sql_query": "SELECT * FROM patients"}''
        = Inr (JObject [(''sql_query'', JString ''SELECT * FROM patients'')])
   \<and> map_of [(''sql_query'', JString ''SELECT * FROM patients'')] ''sql_query''
        = Some (JString ''SELECT * FROM patients'')
   \<and> llm_sql_query_parse example_json_loads ''{"sql_query": "SELECT * FROM patients"}''
        = Inr (JString ''SELECT * FROM patients'')
   \<and> example_json_loads ''{"query": "SELECT * FROM patients"}''
        = Inr (JObject [(''query'', JString ''SELECT * FROM patients'')])
   \<and> map_of [(''query'', JString ''SELECT * FROM patients'')] ''sql_query'' = None
   \<and> llm_sql_query_parse example_json_loads ''{"query": "SELECT * FROM patients"}'' = Inr JNull
   \<and> example_json_loads ''[]'' = Inr (JArray [])
   \<and> (\<forall>d'. JArray [] \<noteq> JObject d')
   \<and> llm_sql_query_parse example_json_loads ''[]'' = Inl AttributeError\<close>
proof -
  have a: "example_json_loads ''not json'' = Inl JSONDecodeError"
    by (simp add: example_json_loads_def)
  have b: \<open>example_json_loads ''{"sql_query": "SELECT * FROM patients"}''
        = Inr (JObject [(''sql_query'', JString ''SELECT * FROM patients'')])\<close>
    by (simp add: example_json_loads_def)
  have c: \<open>example_json_loads ''{"query": "SELECT * FROM patients"}''
        = Inr (JObject [(''query'', JString ''SELECT * FROM patients'')])\<close>
    by (simp add: example_json_loads_def)
  have d: "example_json_loads ''[]'' = Inr (JArray [])"
    by (simp add: example_json_loads_def)
  show ?thesis
    using a b c d
      response_parsing [of example_json_loads "''not json''" JSONDecodeError]
      response_parsing [of example_json_loads \<open>''{"sql_query": "SELECT * FROM patients"}''\<close> _
         "[(''sql_query'', JString ''SELECT * FROM patients'')]" "JString ''SELECT * FROM patients''"]
      response_parsing [of example_json_loads \<open>''{"query": "SELECT * FROM patients"}''\<close> _
         "[(''query'', JString ''SELECT * FROM patients'')]"]
      response_parsing [of example_json_loads "''[]''" _ _ _ "JArray []"]
    by simp
qed

section \<open>Loading the schema\<close>

text \<open>
  A path that does not exist makes \<open>load_schema\<close> return \<open>None\<close>, not raise; a file whose
  top level is a list, and a file whose table entry has none of the required fields,
  are returned as parsed.
\<close>

theorem load_schema_does_not_raise_or_validate:
  "example_read_file ''database_schema.json'' = Inl FileNotFoundError
   \<and> load_schema example_read_file example_json_loads ''database_schema.json'' = Inr JNull
   \<and> load_schema example_read_file example_json_loads ''list.json'' = Inr (JArray [])
   \<and> load_schema example_read_file example_json_loads ''incomplete.json''
        = Inr (JObject [(''patients'', JObject [])])"
  by (simp add: load_schema_def load_schema_except_def example_read_file_def
      example_json_loads_def)

text \<open>
  C7. What the loader does. When the path does not exist, and when the file is not valid
  JSON, it returns \<open>None\<close> and raises nothing, so no partial schema is produced. Every
  other file is returned as \<open>json.load\<close> parsed it: the loader checks neither that the
  top level is a map nor that a table entry has its fields.
\<close>

theorem load_schema_none_or_parsed_value:
  "(read_file file_path = Inl FileNotFoundError \<longrightarrow>
      load_schema read_file json_loads file_path = Inr JNull)
   \<and> (read_file file_path = Inr text \<and> json_loads text = Inl JSONDecodeError \<longrightarrow>
      load_schema read_file json_loads file_path = Inr JNull)
   \<and> (read_file file_path = Inr text \<and> json_loads text = Inr parsed \<longrightarrow>
      load_schema read_file json_loads file_path = Inr parsed)"
  by (simp add: load_schema_def load_schema_except_def)

theorem load_schema_none_or_parsed_value_witness:
  "example_read_file ''database_schema.json'' = Inl FileNotFoundError
   \<and> load_schema example_read_file example_json_loads ''database_schema.json'' = Inr JNull
   \<and> example_read_file ''broken.json'' = Inr ''not json''
   \<and> example_json_loads ''not json'' = Inl JSONDecodeError
   \<and> load_schema example_read_file example_json_loads ''broken.json'' = Inr JNull
   \<and> example_read_file ''list.json'' = Inr ''[]''
   \<and> example_json_loads ''[]'' = Inr (JArray [])
   \<and> load_schema example_read_file example_json_loads ''list.json'' = Inr (JArray [])"
proof -
  have a: "example_read_file ''database_schema.json'' = Inl FileNotFoundError"
    by (simp add: example_read_file_def)
  have b: "example_read_file ''broken.json'' = Inr ''not json''"
    by (simp add: example_read_file_def)
  have c: "example_json_loads ''not json'' = Inl JSONDecodeError"
    by (simp add: example_json_loads_def)
  have d: "example_read_file ''list.json'' = Inr ''[]''"
    by (simp add: example_read_file_def)
  have e: "example_json_loads ''[]'' = Inr (JArray [])"
    by (simp add: example_json_loads_def)
  show ?thesis
    using a b c d e
      load_schema_none_or_parsed_value [of example_read_file "''database_schema.json''" example_json_loads]
      load_schema_none_or_parsed_value [of example_read_file "''broken.json''" example_json_loads "''not json''"]
      load_schema_none_or_parsed_value [of example_read_file "''list.json''" example_json_loads "''[]''" "JArray []"]
    by simp
qed

section \<open>Query execution\<close>

text \<open>
  A query that the database rejects: the exception of \<open>execute\<close> is caught inside
  \<open>sql_response\<close>, which returns \<open>None\<close> to its caller.
\<close>

theorem failed_query_returns_none:
  "connect example_driver example_db_config = Inr []
   \<and> cursor example_driver [] = Inr []
   \<and> execute example_driver [] ''SELECT * FROM invoices'' = Inl (OtherException ''ProgrammingError'')
   \<and> sql_response example_driver ''SELECT * FROM invoices'' example_db_config = Inr None"
  by (simp add: sql_response_def sql_response_try_def example_driver_def)

lemma sql_response_try_rows:
  "sql_response_try driver sql_query db_config = Inr rows \<Longrightarrow>
   \<exists>c u x f g h. connect driver db_config = Inr c \<and> cursor driver c = Inr u
     \<and> execute driver u sql_query = Inr x \<and> fetchall driver x = Inr (rows, f)
     \<and> cursor_close driver f = Inr g \<and> connection_close driver g = Inr h"
  unfolding sql_response_try_def
  by (auto split: sum.splits prod.splits)

text \<open>
  C8. What query execution does. \<open>sql_response\<close> never raises. It returns rows exactly
  when every step of the driver succeeds (connecting, opening the cursor, executing,
  fetching, closing the cursor, closing the connection), and the rows are then the
  complete sequence that \<open>fetchall\<close> gave. When any one of the six steps raises, also a
  close after the rows were fetched, the exception is caught and the result is \<open>None\<close>:
  no partial row set is returned, and the error does not reach the caller.
\<close>

theorem sql_response_rows_or_none:
  "(\<exists>out. sql_response driver sql_query db_config = Inr out)
   \<and> (connect driver db_config = Inr c \<and> cursor driver c = Inr u
        \<and> execute driver u sql_query = Inr x \<and> fetchall driver x = Inr (rows, f)
        \<and> cursor_close driver f = Inr g \<and> connection_close driver g = Inr h \<longrightarrow>
      sql_response driver sql_query db_config = Inr (Some rows))
   \<and> (sql_response driver sql_query db_config = Inr (Some rows) \<longrightarrow>
        (\<exists>c u x f g h. connect driver db_config = Inr c \<and> cursor driver c = Inr u
           \<and> execute driver u sql_query = Inr x \<and> fetchall driver x = Inr (rows, f)
           \<and> cursor_close driver f = Inr g \<and> connection_close driver g = Inr h))
   \<and> (connect driver db_config = Inl e \<longrightarrow>
        sql_response driver sql_query db_config = Inr None)
   \<and> (connect driver db_config = Inr c \<and> cursor driver c = Inl e \<longrightarrow>
        sql_response driver sql_query db_config = Inr None)
   \<and> (connect driver db_config = Inr c \<and> cursor driver c = Inr u
        \<and> execute driver u sql_query = Inl e \<longrightarrow>
        sql_response driver sql_query db_config = Inr None)
   \<and> (connect driver db_config = Inr c \<and> cursor driver c = Inr u
        \<and> execute driver u sql_query = Inr x \<and> fetchall driver x = Inl e \<longrightarrow>
        sql_response driver sql_query db_config = Inr None)
   \<and> (connect driver db_config = Inr c \<and> cursor driver c = Inr u
        \<and> execute driver u sql_query = Inr x \<and> fetchall driver x = Inr (rows, f)
        \<and> cursor_close driver f = Inl e \<longrightarrow>
        sql_response driver sql_query db_config = Inr None)
   \<and> (connect driver db_config = Inr c \<and> cursor driver c = Inr u
        \<and> execute driver u sql_query = Inr x \<and> fetchall driver x = Inr (rows, f)
        \<and> cursor_close driver f = Inr g \<and> connection_close driver g = Inl e \<longrightarrow>
        sql_response driver sql_query db_config = Inr None)"
proof (intro conjI impI)
  show "\<exists>out. sql_response driver sql_query db_config = Inr out"
    by (simp add: sql_response_def split: sum.splits)
next
  assume "sql_response driver sql_query db_config = Inr (Some rows)"
  then have "sql_response_try driver sql_query db_config = Inr rows"
    by (simp add: sql_response_def split: sum.splits)
  then show "\<exists>c u x f g h. connect driver db_config = Inr c \<and> cursor driver c = Inr u
           \<and> execute driver u sql_query = Inr x \<and> fetchall driver x = Inr (rows, f)
           \<and> cursor_close driver f = Inr g \<and> connection_close driver g = Inr h"
    by (rule sql_response_try_rows)
qed (simp_all add: sql_response_def sql_response_try_def)

theorem sql_response_rows_or_none_witness:
  "connect example_driver example_db_config = Inr []
   \<and> cursor example_driver [] = Inr []
   \<and> execute example_driver [] ''SELECT * FROM patients'' = Inr [(1, ''Asha''), (2, ''Binu'')]
   \<and> fetchall example_driver [(1, ''Asha''), (2, ''Binu'')]
        = Inr ([(1, ''Asha''), (2, ''Binu'')], [])
   \<and> cursor_close example_driver [] = Inr []
   \<and> connection_close example_driver [] = Inr []
   \<and> sql_response example_driver ''SELECT * FROM patients'' example_db_config
        = Inr (Some [(1, ''Asha''), (2, ''Binu'')])
   \<and> execute example_driver [] ''SELECT * FROM invoices'' = Inl (OtherException ''ProgrammingError'')
   \<and> sql_response example_driver ''SELECT * FROM invoices'' example_db_config = Inr None
   \<and> fetchall cursor_close_fails_driver [(1, ''Asha''), (2, ''Binu'')]
        = Inr ([(1, ''Asha''), (2, ''Binu'')], [])
   \<and> cursor_close cursor_close_fails_driver [] = Inl (OtherException ''InterfaceError'')
   \<and> sql_response cursor_close_fails_driver ''SELECT * FROM patients'' example_db_config
        = Inr None
   \<and> fetchall connection_close_fails_driver [(1, ''Asha''), (2, ''Binu'')]
        = Inr ([(1, ''Asha''), (2, ''Binu'')], [])
   \<and> cursor_close connection_close_fails_driver [] = Inr []
   \<and> connection_close connection_close_fails_driver [] = Inl (OtherException ''Error'')
   \<and> sql_response connection_close_fails_driver ''SELECT * FROM patients'' example_db_config
        = Inr None"
proof -
  have a: "connect example_driver example_db_config = Inr []"
    "cursor example_driver [] = Inr []"
    "execute example_driver [] ''SELECT * FROM patients'' = Inr [(1, ''Asha''), (2, ''Binu'')]"
    "fetchall example_driver [(1, ''Asha''), (2, ''Binu'')]
        = Inr ([(1, ''Asha''), (2, ''Binu'')], [])"
    "cursor_close example_driver [] = Inr []"
    "connection_close example_driver [] = Inr []"
    "execute example_driver [] ''SELECT * FROM invoices'' = Inl (OtherException ''ProgrammingError'')"
    by (simp_all add: example_driver_def)
  have b: "connect cursor_close_fails_driver example_db_config = Inr []"
    "cursor cursor_close_fails_driver [] = Inr []"
    "execute cursor_close_fails_driver [] ''SELECT * FROM patients''
       = Inr [(1, ''Asha''), (2, ''Binu'')]"
    "fetchall cursor_close_fails_driver [(1, ''Asha''), (2, ''Binu'')]
        = Inr ([(1, ''Asha''), (2, ''Binu'')], [])"
    "cursor_close cursor_close_fails_driver [] = Inl (OtherException ''InterfaceError'')"
    by (simp_all add: cursor_close_fails_driver_def example_driver_def)
  have c: "connect connection_close_fails_driver example_db_config = Inr []"
    "cursor connection_close_fails_driver [] = Inr []"
    "execute connection_close_fails_driver [] ''SELECT * FROM patients''
       = Inr [(1, ''Asha''), (2, ''Binu'')]"
    "fetchall connection_close_fails_driver [(1, ''Asha''), (2, ''Binu'')]
        = Inr ([(1, ''Asha''), (2, ''Binu'')], [])"
    "cursor_close connection_close_fails_driver [] = Inr []"
    "connection_close connection_close_fails_driver [] = Inl (OtherException ''Error'')"
    by (simp_all add: connection_close_fails_driver_def example_driver_def)
  show ?thesis
    using a b c
      sql_response_rows_or_none [of example_driver "''SELECT * FROM patients''" example_db_config
        "[]" "[]" "[(1, ''Asha''), (2, ''Binu'')]" "[(1, ''Asha''), (2, ''Binu'')]"
        "[]" "[]" "[]"]
      sql_response_rows_or_none [of example_driver "''SELECT * FROM invoices''" example_db_config
        "[]" "[]" _ _ _ _ _ "OtherException ''ProgrammingError''"]
      sql_response_rows_or_none [of cursor_close_fails_driver "''SELECT * FROM patients''"
        example_db_config "[]" "[]" "[(1, ''Asha''), (2, ''Binu'')]"
        "[(1, ''Asha''), (2, ''Binu'')]" "[]" _ _ "OtherException ''InterfaceError''"]
      sql_response_rows_or_none [of connection_close_fails_driver "''SELECT * FROM patients''"
        example_db_config "[]" "[]" "[(1, ''Asha''), (2, ''Binu'')]"
        "[(1, ''Asha''), (2, ''Binu'')]" "[]" "[]" _ "OtherException ''Error''"]
    by simp
qed

end
